theory Spec2Isabelle
  imports Complex_Main "HOL-Library.Word"
begin

section \<open>InbetweenFace of the vector animation complex\<close>

text \<open>
  A shallow embedding of \<^verbatim>\<open>src/VAC/VectorAnimationComplex/InbetweenFace.cpp\<close>.
  The class keeps an ordered list of animated cycles and two sets of key faces; every
  member function of the file is a function on a record of these fields. What the
  file calls but does not define (the AnimatedCycle class, the star bookkeeping of
  Cell, the registry of VAC, the tessellator, the text stream) is either a parameter
  of the model or a definition introduced by a comment that says where it comes from.
\<close>

subsection \<open>Cells and pointers\<close>

text \<open>
  Cell identities are the 32-bit \<^verbatim>\<open>int\<close> values of the complex. A pointer to a cell is
  the cell it points to: its class and its identity. The C++ static types
  \<^verbatim>\<open>KeyVertex*\<close>, \<^verbatim>\<open>KeyEdge*\<close> and \<^verbatim>\<open>KeyFace*\<close> are types of their own, and
  \<^verbatim>\<open>Cell*\<close> is their sum with the inbetween classes.
\<close>

type_synonym ident = "32 word"

datatype KeyVertex = KeyVertexPtr ident
datatype KeyEdge = KeyEdgePtr ident
datatype KeyFace = KeyFacePtr ident

datatype Cell =
    KeyVertexCell KeyVertex
  | KeyEdgeCell KeyEdge
  | KeyFaceCell KeyFace
  | InbetweenVertexCell ident
  | InbetweenEdgeCell ident
  | InbetweenFaceCell ident

text \<open>\<^verbatim>\<open>face->id()\<close> for a key face.\<close>

fun KeyFace_id :: "KeyFace \<Rightarrow> ident" where
  "KeyFace_id (KeyFacePtr i) = i"

text \<open>
  \<^verbatim>\<open>Time\<close>, and the coordinates of the sampled points. The file never computes
  with a coordinate: it copies the first two of a sample into an array with a
  third entry 0, and copies them back.
\<close>

type_synonym Time = real
type_synonym Vector2d = "real \<times> real"
type_synonym array3 = "real \<times> real \<times> real"
type_synonym PolygonData = "array3 list list"
type_synonym Triangles = "(array3 \<times> array3 \<times> array3) list"

text \<open>\<^verbatim>\<open>KeyHalfedge\<close>: a key edge and a direction bit.\<close>

record KeyHalfedge =
  edge :: KeyEdge
  side :: bool

subsection \<open>The face\<close>

text \<open>
  The data members of \<^verbatim>\<open>InbetweenFace\<close>. \<^verbatim>\<open>'cyc\<close> is the class AnimatedCycle,
  which is not part of the file; the temporary identity lists are filled by the
  stream constructor and consumed by \<^verbatim>\<open>read2ndPass\<close>. A name cannot end
  with an underscore here, so the members and the member functions that have one
  in the source are written without it.
\<close>

record 'cyc InbetweenFace =
  cycles :: "'cyc list"
  beforeFaces :: "KeyFace set"
  afterFaces :: "KeyFace set"
  tempBeforeFaces :: "ident list"
  tempAfterFaces :: "ident list"

datatype error = IndexOutOfRange | UnresolvedIdentityError

text \<open>
  The registry of the complex: the cell registered under an identity, if any.
\<close>

record VAC =
  registry :: "ident \<rightharpoonup> Cell"

subsection \<open>What the file uses and does not define\<close>

text \<open>
  The member functions of AnimatedCycle that the file calls, the existence test
  \<^verbatim>\<open>exists(time)\<close> inherited from InbetweenCell, \<^verbatim>\<open>KeyEdge::time()\<close>,
  \<^verbatim>\<open>Cell::toKeyFace()\<close> and \<^verbatim>\<open>detail::tesselatePolygon\<close> are defined elsewhere
  in the repository. They are
  parameters: every function of the model that calls one takes the record below,
  and the theorems hold for every such record unless they say otherwise.

  \<^item> \<open>AnimatedCycle0\<close> is the default-constructed cycle \<^verbatim>\<open>AnimatedCycle()\<close>.
  \<^item> \<open>sample c t\<close> is the content of \<^verbatim>\<open>sampling\<close> after
    \<^verbatim>\<open>c.sample(t, sampling)\<close> on a fresh list.
  \<^item> \<open>tesselatePolygon p out\<close> is the content of the triangle buffer after
    \<^verbatim>\<open>detail::tesselatePolygon(p, out)\<close>; the buffer is passed in, since the
    function receives it by reference.
  \<^item> \<open>tempIds c\<close> are the temporary identities a cycle read from a file holds,
    and \<open>withPointers c cs\<close> is the cycle once it refers to the cells \<open>cs\<close>
    instead of them.
  \<^item> \<open>toKeyFace c\<close> is the pointer that \<^verbatim>\<open>Cell::toKeyFace()\<close> returns for the
    cell \<open>c\<close>.
\<close>

record 'cyc collaborators =
  AnimatedCycle0 :: "'cyc"
  sample :: "'cyc \<Rightarrow> Time \<Rightarrow> Vector2d list"
  cells :: "'cyc \<Rightarrow> Cell set"
  cycle_beforeCells :: "'cyc \<Rightarrow> Cell set"
  cycle_afterCells :: "'cyc \<Rightarrow> Cell set"
  replaceVertex :: "KeyVertex \<Rightarrow> KeyVertex \<Rightarrow> 'cyc \<Rightarrow> 'cyc"
  replaceHalfedge :: "KeyHalfedge \<Rightarrow> KeyHalfedge \<Rightarrow> 'cyc \<Rightarrow> 'cyc"
  replaceEdges :: "KeyEdge \<Rightarrow> KeyEdge list \<Rightarrow> 'cyc \<Rightarrow> 'cyc"
  tempIds :: "'cyc \<Rightarrow> ident list"
  withPointers :: "'cyc \<Rightarrow> Cell list \<Rightarrow> 'cyc"
  toKeyFace :: "Cell \<Rightarrow> KeyFace"
  exists :: "'cyc InbetweenFace \<Rightarrow> Time \<Rightarrow> bool"
  KeyEdge_time :: "KeyEdge \<Rightarrow> Time"
  tesselatePolygon :: "PolygonData \<Rightarrow> Triangles \<Rightarrow> Triangles"

subsection \<open>Sampling and triangulation\<close>

text \<open>
  \<^verbatim>\<open>createPolygonData\<close>, lines 45 to 63. The inner loop appends one array to the
  last contour for each sampled point; the outer loop appends one contour for
  each cycle. Both run over the indices from 0.
\<close>

definition append_back :: "PolygonData \<Rightarrow> array3 \<Rightarrow> PolygonData" where
  "append_back vertices a = butlast vertices @ [last vertices @ [a]]"

definition createPolygonData_inner :: "Vector2d list \<Rightarrow> PolygonData \<Rightarrow> PolygonData" where
  "createPolygonData_inner sampling vertices =
     foldl (\<lambda>vs j. append_back vs (fst (sampling ! j), snd (sampling ! j), 0))
       vertices [0..<length sampling]"

definition createPolygonData ::
  "'cyc collaborators \<Rightarrow> 'cyc list \<Rightarrow> Time \<Rightarrow> PolygonData" where
  "createPolygonData C cs time =
     foldl (\<lambda>vertices k.
              createPolygonData_inner (sample C (cs ! k) time) (vertices @ [[]]))
       [] [0..<length cs]"

text \<open>\<^verbatim>\<open>computeTrianglesFromCycles\<close>, lines 65 to 69.\<close>

definition computeTrianglesFromCycles ::
  "'cyc collaborators \<Rightarrow> 'cyc list \<Rightarrow> Triangles \<Rightarrow> Time \<Rightarrow> Triangles" where
  "computeTrianglesFromCycles C cs triangles time =
     tesselatePolygon C (createPolygonData C cs time) triangles"

text \<open>\<^verbatim>\<open>numAnimatedCycles\<close>, lines 161 to 164.\<close>

definition numAnimatedCycles :: "'cyc InbetweenFace \<Rightarrow> int" where
  "numAnimatedCycles f = int (length (cycles f))"

text \<open>
  \<^verbatim>\<open>triangulate_\<close>, lines 181 to 186: the buffer is cleared, and filled only if
  the face exists at the time. The result is the buffer after the call.
\<close>

definition triangulate ::
  "'cyc collaborators \<Rightarrow> 'cyc InbetweenFace \<Rightarrow> Time \<Rightarrow> Triangles \<Rightarrow> Triangles" where
  "triangulate C f time out =
     (let out = [] in
      if exists C f time then computeTrianglesFromCycles C (cycles f) out time
      else out)"

text \<open>\<^verbatim>\<open>getSampling\<close>, lines 188 to 203.\<close>

definition getSampling_inner :: "array3 list \<Rightarrow> Vector2d list list \<Rightarrow> nat \<Rightarrow> Vector2d list list" where
  "getSampling_inner contour res k =
     foldl (\<lambda>r i. r[k := r ! k @ [(fst (contour ! i), fst (snd (contour ! i)))]])
       res [0..<length contour]"

definition getSampling ::
  "'cyc collaborators \<Rightarrow> 'cyc InbetweenFace \<Rightarrow> Time \<Rightarrow> Vector2d list list" where
  "getSampling C f time =
     (let data = createPolygonData C (cycles f) time in
      foldl (\<lambda>res k. getSampling_inner (data ! k) (res @ [[]]) k) [] [0..<length data])"

subsection \<open>Temporal and spatial boundary\<close>

text \<open>
  \<^verbatim>\<open>beforeCells\<close>, \<^verbatim>\<open>afterCells\<close> and \<^verbatim>\<open>spatialBoundary\<close>, lines 494 to 520. The
  set of key faces is converted to a set of cells, then united with what each
  cycle reports.
\<close>

definition beforeCells :: "'cyc collaborators \<Rightarrow> 'cyc InbetweenFace \<Rightarrow> Cell set" where
  "beforeCells C f =
     foldl (\<lambda>res i. res \<union> cycle_beforeCells C (cycles f ! i))
       (KeyFaceCell ` beforeFaces f) [0..<length (cycles f)]"

definition afterCells :: "'cyc collaborators \<Rightarrow> 'cyc InbetweenFace \<Rightarrow> Cell set" where
  "afterCells C f =
     foldl (\<lambda>res i. res \<union> cycle_afterCells C (cycles f ! i))
       (KeyFaceCell ` afterFaces f) [0..<length (cycles f)]"

definition spatialBoundary :: "'cyc collaborators \<Rightarrow> 'cyc InbetweenFace \<Rightarrow> Cell set" where
  "spatialBoundary C f =
     foldl (\<lambda>res i. res \<union> cells C (cycles f ! i)) {} [0..<length (cycles f)]"

subsection \<open>The complex around the face\<close>

text \<open>
  The member functions that change the boundary of the face also write to other
  objects: the star sets of the cells of its boundary, and whoever listens to its
  geometry. The state they run on is the face together with these.

  Modelled from the spec: the star index of Cell is not under src/. A cell's star
  is ``the set of cells whose boundary definition references this cell''; the calls
  at lines 140, 146, 152 and 158 name three of them, the spatial star and the
  temporal stars before and after a cell, so each cell carries three sets.
  \<open>geometryChanged\<close> counts the geometry-changed notifications sent so far.
\<close>

record 'cyc complex =
  face :: "'cyc InbetweenFace"
  spatialStar :: "Cell \<Rightarrow> Cell set"
  temporalStarBefore :: "Cell \<Rightarrow> Cell set"
  temporalStarAfter :: "Cell \<Rightarrow> Cell set"
  geometryChanged :: nat

text \<open>
  Modelled from the spec: \<^verbatim>\<open>addMeToSpatialStarOf_\<close>, \<^verbatim>\<open>addMeToTemporalStarBeforeOf_\<close>,
  \<^verbatim>\<open>addMeToTemporalStarAfterOf_\<close> and their \<^verbatim>\<open>removeMeFrom\<close> counterparts are
  members of Cell, not under src/. Each registers (deregisters) the calling cell
  \<open>me\<close> in the named star of the cell \<open>c\<close> and touches nothing else.
\<close>

definition addMeToSpatialStarOf :: "Cell \<Rightarrow> Cell \<Rightarrow> 'cyc complex \<Rightarrow> 'cyc complex" where
  "addMeToSpatialStarOf me c w =
     w\<lparr>spatialStar := (spatialStar w)(c := insert me (spatialStar w c))\<rparr>"

definition addMeToTemporalStarBeforeOf :: "Cell \<Rightarrow> Cell \<Rightarrow> 'cyc complex \<Rightarrow> 'cyc complex" where
  "addMeToTemporalStarBeforeOf me c w =
     w\<lparr>temporalStarBefore := (temporalStarBefore w)(c := insert me (temporalStarBefore w c))\<rparr>"

definition addMeToTemporalStarAfterOf :: "Cell \<Rightarrow> Cell \<Rightarrow> 'cyc complex \<Rightarrow> 'cyc complex" where
  "addMeToTemporalStarAfterOf me c w =
     w\<lparr>temporalStarAfter := (temporalStarAfter w)(c := insert me (temporalStarAfter w c))\<rparr>"

definition removeMeFromSpatialStarOf :: "Cell \<Rightarrow> Cell \<Rightarrow> 'cyc complex \<Rightarrow> 'cyc complex" where
  "removeMeFromSpatialStarOf me c w =
     w\<lparr>spatialStar := (spatialStar w)(c := spatialStar w c - {me})\<rparr>"

definition removeMeFromTemporalStarBeforeOf :: "Cell \<Rightarrow> Cell \<Rightarrow> 'cyc complex \<Rightarrow> 'cyc complex" where
  "removeMeFromTemporalStarBeforeOf me c w =
     w\<lparr>temporalStarBefore := (temporalStarBefore w)(c := temporalStarBefore w c - {me})\<rparr>"

definition removeMeFromTemporalStarAfterOf :: "Cell \<Rightarrow> Cell \<Rightarrow> 'cyc complex \<Rightarrow> 'cyc complex" where
  "removeMeFromTemporalStarAfterOf me c w =
     w\<lparr>temporalStarAfter := (temporalStarAfter w)(c := temporalStarAfter w c - {me})\<rparr>"

text \<open>
  Modelled from the spec: \<^verbatim>\<open>addMeToStarOfBoundary_\<close> and
  \<^verbatim>\<open>removeMeFromStarOfBoundary_\<close> are members of Cell, not under src/. The first
  ``registers itself into every referenced cell's star'', the second is the
  ``deregister-from-star'' step. The referenced cells are those of the three
  boundary queries of the face; a cell of \<^verbatim>\<open>beforeCells()\<close> is entered in the
  temporal star after it and a cell of \<^verbatim>\<open>afterCells()\<close> in the temporal star
  before it, as \<^verbatim>\<open>addBeforeFace\<close> and \<^verbatim>\<open>addAfterFace\<close> do for one key face.
\<close>

definition addMeToStarOfBoundary ::
  "'cyc collaborators \<Rightarrow> Cell \<Rightarrow> 'cyc complex \<Rightarrow> 'cyc complex" where
  "addMeToStarOfBoundary C me w =
     w\<lparr>spatialStar := (\<lambda>c. if c \<in> spatialBoundary C (face w)
                            then insert me (spatialStar w c) else spatialStar w c),
       temporalStarAfter := (\<lambda>c. if c \<in> beforeCells C (face w)
                            then insert me (temporalStarAfter w c) else temporalStarAfter w c),
       temporalStarBefore := (\<lambda>c. if c \<in> afterCells C (face w)
                            then insert me (temporalStarBefore w c) else temporalStarBefore w c)\<rparr>"

definition removeMeFromStarOfBoundary ::
  "'cyc collaborators \<Rightarrow> Cell \<Rightarrow> 'cyc complex \<Rightarrow> 'cyc complex" where
  "removeMeFromStarOfBoundary C me w =
     w\<lparr>spatialStar := (\<lambda>c. if c \<in> spatialBoundary C (face w)
                            then spatialStar w c - {me} else spatialStar w c),
       temporalStarAfter := (\<lambda>c. if c \<in> beforeCells C (face w)
                            then temporalStarAfter w c - {me} else temporalStarAfter w c),
       temporalStarBefore := (\<lambda>c. if c \<in> afterCells C (face w)
                            then temporalStarBefore w c - {me} else temporalStarBefore w c)\<rparr>"

text \<open>
  Modelled from the spec: \<^verbatim>\<open>processGeometryChanged_\<close> is a member of Cell, not
  under src/. It sends the geometry-changed notification; the model counts it.
\<close>

definition processGeometryChanged :: "'cyc complex \<Rightarrow> 'cyc complex" where
  "processGeometryChanged w = w\<lparr>geometryChanged := Suc (geometryChanged w)\<rparr>"

subsection \<open>Construction and mutation\<close>

text \<open>
  The constructors of lines 73 to 93. The first leaves the three members empty; the
  second stores its arguments and registers the face in the star of its boundary.
\<close>

definition InbetweenFace_empty :: "'cyc InbetweenFace" where
  "InbetweenFace_empty =
     \<lparr>cycles = [], beforeFaces = {}, afterFaces = {},
      tempBeforeFaces = [], tempAfterFaces = []\<rparr>"

definition InbetweenFace_new ::
  "'cyc collaborators \<Rightarrow> Cell \<Rightarrow> 'cyc list \<Rightarrow> KeyFace set \<Rightarrow> KeyFace set
   \<Rightarrow> 'cyc complex \<Rightarrow> 'cyc complex" where
  "InbetweenFace_new C me cs before after w =
     addMeToStarOfBoundary C me
       (w\<lparr>face := InbetweenFace_empty\<lparr>cycles := cs, beforeFaces := before, afterFaces := after\<rparr>\<rparr>)"

text \<open>\<^verbatim>\<open>addAnimatedCycle()\<close>, lines 95 to 98.\<close>

definition addAnimatedCycle :: "'cyc collaborators \<Rightarrow> 'cyc complex \<Rightarrow> 'cyc complex" where
  "addAnimatedCycle C w = w\<lparr>face := (face w)\<lparr>cycles := cycles (face w) @ [AnimatedCycle0 C]\<rparr>\<rparr>"

text \<open>
  \<^verbatim>\<open>setCycle\<close>, lines 106 to 113. \<^verbatim>\<open>cycles_[i]\<close> is \<^verbatim>\<open>QList::operator[]\<close>, which
  requires a valid index: with any other the call has no defined result, and the
  model returns \<open>IndexOutOfRange\<close>.
\<close>

definition setCycle ::
  "'cyc collaborators \<Rightarrow> Cell \<Rightarrow> int \<Rightarrow> 'cyc \<Rightarrow> 'cyc complex \<Rightarrow> error + 'cyc complex" where
  "setCycle C me i cycle w =
     (let w1 = removeMeFromStarOfBoundary C me w in
      if 0 \<le> i \<and> i < int (length (cycles (face w1))) then
        let w2 = w1\<lparr>face := (face w1)\<lparr>cycles := (cycles (face w1))[nat i := cycle]\<rparr>\<rparr>;
            w3 = addMeToStarOfBoundary C me w2
        in Inr (processGeometryChanged w3)
      else Inl IndexOutOfRange)"

text \<open>\<^verbatim>\<open>addAnimatedCycle(const AnimatedCycle &)\<close>, lines 100 to 104.\<close>

definition addAnimatedCycle_cycle ::
  "'cyc collaborators \<Rightarrow> Cell \<Rightarrow> 'cyc \<Rightarrow> 'cyc complex \<Rightarrow> error + 'cyc complex" where
  "addAnimatedCycle_cycle C me cycle w =
     (let w1 = addAnimatedCycle C w
      in setCycle C me (numAnimatedCycles (face w1) - 1) cycle w1)"

text \<open>
  \<^verbatim>\<open>removeCycle\<close>, lines 115 to 121. \<^verbatim>\<open>QList::removeAt\<close> removes the item at a
  valid index and leaves the list as it is for any other.
\<close>

definition removeAt :: "int \<Rightarrow> 'a list \<Rightarrow> 'a list" where
  "removeAt i xs =
     (if 0 \<le> i \<and> i < int (length xs) then take (nat i) xs @ drop (Suc (nat i)) xs else xs)"

definition removeCycle ::
  "'cyc collaborators \<Rightarrow> Cell \<Rightarrow> int \<Rightarrow> 'cyc complex \<Rightarrow> 'cyc complex" where
  "removeCycle C me i w =
     (let w1 = removeMeFromStarOfBoundary C me w;
          w2 = w1\<lparr>face := (face w1)\<lparr>cycles := removeAt i (cycles (face w1))\<rparr>\<rparr>;
          w3 = addMeToStarOfBoundary C me w2
      in processGeometryChanged w3)"

text \<open>\<^verbatim>\<open>setBeforeFaces\<close> and \<^verbatim>\<open>setAfterFaces\<close>, lines 123 to 135.\<close>

definition setBeforeFaces ::
  "'cyc collaborators \<Rightarrow> Cell \<Rightarrow> KeyFace set \<Rightarrow> 'cyc complex \<Rightarrow> 'cyc complex" where
  "setBeforeFaces C me newBeforeFaces w =
     (let w1 = removeMeFromStarOfBoundary C me w;
          w2 = w1\<lparr>face := (face w1)\<lparr>beforeFaces := newBeforeFaces\<rparr>\<rparr>
      in addMeToStarOfBoundary C me w2)"

definition setAfterFaces ::
  "'cyc collaborators \<Rightarrow> Cell \<Rightarrow> KeyFace set \<Rightarrow> 'cyc complex \<Rightarrow> 'cyc complex" where
  "setAfterFaces C me newAfterFaces w =
     (let w1 = removeMeFromStarOfBoundary C me w;
          w2 = w1\<lparr>face := (face w1)\<lparr>afterFaces := newAfterFaces\<rparr>\<rparr>
      in addMeToStarOfBoundary C me w2)"

text \<open>
  \<^verbatim>\<open>addBeforeFace\<close>, \<^verbatim>\<open>addAfterFace\<close>, \<^verbatim>\<open>removeBeforeFace\<close> and
  \<^verbatim>\<open>removeAfterFace\<close>, lines 137 to 159: the set is changed, then the one star.
\<close>

definition addBeforeFace :: "Cell \<Rightarrow> KeyFace \<Rightarrow> 'cyc complex \<Rightarrow> 'cyc complex" where
  "addBeforeFace me beforeFace w =
     addMeToTemporalStarAfterOf me (KeyFaceCell beforeFace)
       (w\<lparr>face := (face w)\<lparr>beforeFaces := insert beforeFace (beforeFaces (face w))\<rparr>\<rparr>)"

definition addAfterFace :: "Cell \<Rightarrow> KeyFace \<Rightarrow> 'cyc complex \<Rightarrow> 'cyc complex" where
  "addAfterFace me afterFace w =
     addMeToTemporalStarBeforeOf me (KeyFaceCell afterFace)
       (w\<lparr>face := (face w)\<lparr>afterFaces := insert afterFace (afterFaces (face w))\<rparr>\<rparr>)"

definition removeBeforeFace :: "Cell \<Rightarrow> KeyFace \<Rightarrow> 'cyc complex \<Rightarrow> 'cyc complex" where
  "removeBeforeFace me beforeFace w =
     removeMeFromTemporalStarAfterOf me (KeyFaceCell beforeFace)
       (w\<lparr>face := (face w)\<lparr>beforeFaces := beforeFaces (face w) - {beforeFace}\<rparr>\<rparr>)"

definition removeAfterFace :: "Cell \<Rightarrow> KeyFace \<Rightarrow> 'cyc complex \<Rightarrow> 'cyc complex" where
  "removeAfterFace me afterFace w =
     removeMeFromTemporalStarBeforeOf me (KeyFaceCell afterFace)
       (w\<lparr>face := (face w)\<lparr>afterFaces := afterFaces (face w) - {afterFace}\<rparr>\<rparr>)"

text \<open>
  A sequence of boundary mutations: one constructor for each of the eight member
  functions, run from left to right; the run ends at the first call that has no
  defined result.
\<close>

datatype 'cyc mutation =
    SetCycle int 'cyc
  | RemoveCycle int
  | SetBeforeFaces "KeyFace set"
  | SetAfterFaces "KeyFace set"
  | AddBeforeFace KeyFace
  | AddAfterFace KeyFace
  | RemoveBeforeFace KeyFace
  | RemoveAfterFace KeyFace

fun mutate ::
  "'cyc collaborators \<Rightarrow> Cell \<Rightarrow> 'cyc mutation \<Rightarrow> 'cyc complex \<Rightarrow> error + 'cyc complex" where
  "mutate C me (SetCycle i cycle) w = setCycle C me i cycle w"
| "mutate C me (RemoveCycle i) w = Inr (removeCycle C me i w)"
| "mutate C me (SetBeforeFaces s) w = Inr (setBeforeFaces C me s w)"
| "mutate C me (SetAfterFaces s) w = Inr (setAfterFaces C me s w)"
| "mutate C me (AddBeforeFace k) w = Inr (addBeforeFace me k w)"
| "mutate C me (AddAfterFace k) w = Inr (addAfterFace me k w)"
| "mutate C me (RemoveBeforeFace k) w = Inr (removeBeforeFace me k w)"
| "mutate C me (RemoveAfterFace k) w = Inr (removeAfterFace me k w)"

fun mutations ::
  "'cyc collaborators \<Rightarrow> Cell \<Rightarrow> 'cyc mutation list \<Rightarrow> 'cyc complex \<Rightarrow> error + 'cyc complex" where
  "mutations C me [] w = Inr w"
| "mutations C me (m # ms) w =
     (case mutate C me m w of Inl e \<Rightarrow> Inl e | Inr w' \<Rightarrow> mutations C me ms w')"

text \<open>
  Star consistency, in the words of the specification and without any function of
  the source. The cells a face references are the cells of its cycles (its
  spatial boundary), its before faces with the cells its cycles report before
  their interval, and its after faces with the cells its cycles report after it.
  The face \<open>me\<close> is star consistent when each of these cells has it in the
  matching star and no other cell has. \<open>star\<close> is the star of a cell as one set,
  \<open>referenced\<close> the cells the face references as one set.
\<close>

definition referenced_spatially :: "'cyc collaborators \<Rightarrow> 'cyc InbetweenFace \<Rightarrow> Cell set" where
  "referenced_spatially C f = (\<Union>c\<in>set (cycles f). cells C c)"

definition referenced_before :: "'cyc collaborators \<Rightarrow> 'cyc InbetweenFace \<Rightarrow> Cell set" where
  "referenced_before C f =
     KeyFaceCell ` beforeFaces f \<union> (\<Union>c\<in>set (cycles f). cycle_beforeCells C c)"

definition referenced_after :: "'cyc collaborators \<Rightarrow> 'cyc InbetweenFace \<Rightarrow> Cell set" where
  "referenced_after C f =
     KeyFaceCell ` afterFaces f \<union> (\<Union>c\<in>set (cycles f). cycle_afterCells C c)"

definition referenced :: "'cyc collaborators \<Rightarrow> 'cyc InbetweenFace \<Rightarrow> Cell set" where
  "referenced C f = referenced_spatially C f \<union> referenced_before C f \<union> referenced_after C f"

definition star :: "'cyc complex \<Rightarrow> Cell \<Rightarrow> Cell set" where
  "star w c = spatialStar w c \<union> temporalStarBefore w c \<union> temporalStarAfter w c"

definition star_consistent :: "'cyc collaborators \<Rightarrow> Cell \<Rightarrow> 'cyc complex \<Rightarrow> bool" where
  "star_consistent C me w \<longleftrightarrow>
     (\<forall>c. (me \<in> spatialStar w c \<longleftrightarrow> c \<in> referenced_spatially C (face w)) \<and>
          (me \<in> temporalStarAfter w c \<longleftrightarrow> c \<in> referenced_before C (face w)) \<and>
          (me \<in> temporalStarBefore w c \<longleftrightarrow> c \<in> referenced_after C (face w)))"

text \<open>
  What each mutation is to do to the members of the face, again without the
  source: \<^verbatim>\<open>setCycle\<close> replaces the cycle at the index, \<^verbatim>\<open>removeCycle\<close> keeps
  the cycles at every other index, the others set a set, add one key face to it
  or remove one from it. \<open>others_unchanged\<close> says that two complexes have the
  same stars but for the face \<open>me\<close>.
\<close>

fun effect :: "'cyc mutation \<Rightarrow> 'cyc InbetweenFace \<Rightarrow> 'cyc InbetweenFace" where
  "effect (SetCycle i cycle) f = f\<lparr>cycles := (cycles f)[nat i := cycle]\<rparr>"
| "effect (RemoveCycle i) f = f\<lparr>cycles := nths (cycles f) {j. int j \<noteq> i}\<rparr>"
| "effect (SetBeforeFaces s) f = f\<lparr>beforeFaces := s\<rparr>"
| "effect (SetAfterFaces s) f = f\<lparr>afterFaces := s\<rparr>"
| "effect (AddBeforeFace k) f = f\<lparr>beforeFaces := insert k (beforeFaces f)\<rparr>"
| "effect (AddAfterFace k) f = f\<lparr>afterFaces := insert k (afterFaces f)\<rparr>"
| "effect (RemoveBeforeFace k) f = f\<lparr>beforeFaces := beforeFaces f - {k}\<rparr>"
| "effect (RemoveAfterFace k) f = f\<lparr>afterFaces := afterFaces f - {k}\<rparr>"

definition others_unchanged :: "Cell \<Rightarrow> 'cyc complex \<Rightarrow> 'cyc complex \<Rightarrow> bool" where
  "others_unchanged me w w' \<longleftrightarrow>
     (\<forall>c. spatialStar w' c - {me} = spatialStar w c - {me} \<and>
          temporalStarBefore w' c - {me} = temporalStarBefore w c - {me} \<and>
          temporalStarAfter w' c - {me} = temporalStarAfter w c - {me})"

text \<open>
  Between the two halves of a full update the face is in no star at all.
\<close>

definition star_free :: "Cell \<Rightarrow> 'cyc complex \<Rightarrow> bool" where
  "star_free me w \<longleftrightarrow>
     (\<forall>c. me \<notin> spatialStar w c \<and> me \<notin> temporalStarAfter w c \<and> me \<notin> temporalStarBefore w c)"

text \<open>
  An animated cycle is a loop of half-edges: the cells it reports are vertices and
  edges. The one consequence the mutations rely on is that no key face is among
  the cells a cycle reports before or after its interval.
\<close>

definition cycles_report_no_KeyFace :: "'cyc collaborators \<Rightarrow> bool" where
  "cycles_report_no_KeyFace C \<longleftrightarrow>
     (\<forall>c k. KeyFaceCell k \<notin> cycle_beforeCells C c \<and> KeyFaceCell k \<notin> cycle_afterCells C c)"

subsection \<open>Boundary updates\<close>

text \<open>
  The three overloads of \<^verbatim>\<open>updateBoundary_impl\<close>, lines 523 to 541. Each loop
  rewrites the cycles in place, one index after the other.
\<close>

definition updateBoundary_impl_vertex ::
  "'cyc collaborators \<Rightarrow> KeyVertex \<Rightarrow> KeyVertex \<Rightarrow> 'cyc InbetweenFace \<Rightarrow> 'cyc InbetweenFace" where
  "updateBoundary_impl_vertex C oldVertex newVertex f =
     f\<lparr>cycles := foldl (\<lambda>cs i. cs[i := replaceVertex C oldVertex newVertex (cs ! i)])
                   (cycles f) [0..<length (cycles f)]\<rparr>"

definition updateBoundary_impl_halfedge ::
  "'cyc collaborators \<Rightarrow> KeyHalfedge \<Rightarrow> KeyHalfedge \<Rightarrow> 'cyc InbetweenFace \<Rightarrow> 'cyc InbetweenFace" where
  "updateBoundary_impl_halfedge C oldHalfedge newHalfedge f =
     f\<lparr>cycles := foldl (\<lambda>cs i. cs[i := replaceHalfedge C oldHalfedge newHalfedge (cs ! i)])
                   (cycles f) [0..<length (cycles f)]\<rparr>"

definition updateBoundary_impl_edges ::
  "'cyc collaborators \<Rightarrow> KeyEdge \<Rightarrow> KeyEdge list \<Rightarrow> 'cyc InbetweenFace \<Rightarrow> 'cyc InbetweenFace" where
  "updateBoundary_impl_edges C oldEdge newEdges f =
     (if \<not> exists C f (KeyEdge_time C oldEdge) then f
      else f\<lparr>cycles := foldl (\<lambda>cs i. cs[i := replaceEdges C oldEdge newEdges (cs ! i)])
                          (cycles f) [0..<length (cycles f)]\<rparr>)"

subsection \<open>The second pass of loading\<close>

text \<open>
  Modelled from the spec: \<^verbatim>\<open>VAC::getCell\<close> is not under src/. It is the
  registry's \<^verbatim>\<open>resolve(identity) -> Cell\<close>, which ``fails with
  UnresolvedIdentityError if absent at second-pass load time''.
\<close>

definition getCell :: "VAC \<Rightarrow> ident \<Rightarrow> error + Cell" where
  "getCell vac i =
     (case registry vac i of None \<Rightarrow> Inl UnresolvedIdentityError | Some c \<Rightarrow> Inr c)"

text \<open>
  Modelled from the spec: \<^verbatim>\<open>AnimatedCycle::convertTempIdsToPointers\<close> is not
  under src/. It is the second pass of a cycle, which ``resolves identities to
  live references'': every temporary identity of the cycle is resolved by the
  registry, in order, and the cycle then refers to the cells found. The first
  identity that does not resolve ends the call with the registry's error.
\<close>

fun getCells :: "VAC \<Rightarrow> ident list \<Rightarrow> error + Cell list" where
  "getCells vac [] = Inr []"
| "getCells vac (i # ids) =
     (case getCell vac i of
        Inl e \<Rightarrow> Inl e
      | Inr c \<Rightarrow>
          (case getCells vac ids of
             Inl e \<Rightarrow> Inl e
           | Inr cs \<Rightarrow> Inr (c # cs)))"

definition convertTempIdsToPointers :: "'cyc collaborators \<Rightarrow> VAC \<Rightarrow> 'cyc \<Rightarrow> error + 'cyc" where
  "convertTempIdsToPointers C vac c =
     (case getCells vac (tempIds C c) of
        Inl e \<Rightarrow> Inl e
      | Inr cs \<Rightarrow> Inr (withPointers C c cs))"

text \<open>
  \<^verbatim>\<open>read2ndPass\<close>, lines 301 to 321. The calls of the base classes act on their
  own members and are left out. Each loop stops at the first error; the others
  are not reached, as after a C++ exception. Lines 315 and 320 insert what
  \<^verbatim>\<open>toKeyFace()\<close> returns for the cell found, whatever it is.
\<close>

fun read2ndPass_cycles :: "'cyc collaborators \<Rightarrow> VAC \<Rightarrow> 'cyc list \<Rightarrow> error + 'cyc list" where
  "read2ndPass_cycles C vac [] = Inr []"
| "read2ndPass_cycles C vac (c # cs) =
     (case convertTempIdsToPointers C vac c of
        Inl e \<Rightarrow> Inl e
      | Inr c' \<Rightarrow>
          (case read2ndPass_cycles C vac cs of
             Inl e \<Rightarrow> Inl e
           | Inr cs' \<Rightarrow> Inr (c' # cs')))"

fun read2ndPass_faces ::
  "'cyc collaborators \<Rightarrow> VAC \<Rightarrow> ident list \<Rightarrow> KeyFace set \<Rightarrow> error + KeyFace set" where
  "read2ndPass_faces C vac [] faces = Inr faces"
| "read2ndPass_faces C vac (i # ids) faces =
     (case getCell vac i of
        Inl e \<Rightarrow> Inl e
      | Inr c \<Rightarrow> read2ndPass_faces C vac ids (insert (toKeyFace C c) faces))"

definition read2ndPass ::
  "'cyc collaborators \<Rightarrow> VAC \<Rightarrow> 'cyc InbetweenFace \<Rightarrow> error + 'cyc InbetweenFace" where
  "read2ndPass C vac f =
     (case read2ndPass_cycles C vac (cycles f) of
        Inl e \<Rightarrow> Inl e
      | Inr cs \<Rightarrow>
          (case read2ndPass_faces C vac (tempBeforeFaces f) {} of
             Inl e \<Rightarrow> Inl e
           | Inr before \<Rightarrow>
               (case read2ndPass_faces C vac (tempAfterFaces f) {} of
                  Inl e \<Rightarrow> Inl e
                | Inr after \<Rightarrow>
                    Inr (f\<lparr>cycles := cs, beforeFaces := before, afterFaces := after\<rparr>))))"

text \<open>
  Every temporary identity of a face: those of its cycles and those of its two
  lists. \<open>resolved vac i\<close> is the cell registered under an identity that is
  registered.
\<close>

definition temporary_identities :: "'cyc collaborators \<Rightarrow> 'cyc InbetweenFace \<Rightarrow> ident set" where
  "temporary_identities C f =
     (\<Union>c\<in>set (cycles f). set (tempIds C c))
     \<union> set (tempBeforeFaces f) \<union> set (tempAfterFaces f)"

definition resolved :: "VAC \<Rightarrow> ident \<Rightarrow> Cell" where
  "resolved vac i = the (registry vac i)"

subsection \<open>Text streams\<close>

text \<open>
  \<^verbatim>\<open>QTextStream\<close> belongs to the Qt library. A stream being read is the text
  that is left; the operators are modelled after the library's documentation and
  its \<^verbatim>\<open>qtextstream.cpp\<close>:
  \<^item> \<^verbatim>\<open>in >> QString\<close> skips white space and reads a word, up to the next
    white space or the end, which it leaves in the stream;
  \<^item> \<^verbatim>\<open>in >> char\<close> reads one character and does not skip white space; at the
    end of the text it yields the character 0;
  \<^item> \<^verbatim>\<open>in >> int\<close> skips white space and reads a number with the base given by
    its prefix, into 64 bits, then converts to \<^verbatim>\<open>int\<close>; when there is no
    number it yields 0;
  \<^item> \<^verbatim>\<open>out << int\<close> writes the decimal form.
\<close>

definition isSpace :: "char \<Rightarrow> bool" where
  "isSpace c \<longleftrightarrow> c \<in> {CHR 0x20, CHR 0x09, CHR 0x0A, CHR 0x0B, CHR 0x0C, CHR 0x0D}"


definition readChar :: "string \<Rightarrow> char \<times> string" where
  "readChar s = (case s of [] \<Rightarrow> (CHR 0x00, []) | c # s' \<Rightarrow> (c, s'))"

definition digitValue :: "nat \<Rightarrow> char \<Rightarrow> nat option" where
  "digitValue base c =
     (let n = (of_char c :: nat);
          d = (if 48 \<le> n \<and> n \<le> 57 then Some (n - 48)
               else if 97 \<le> n \<and> n \<le> 102 then Some (n - 87)
               else if 65 \<le> n \<and> n \<le> 70 then Some (n - 55)
               else None)
      in case d of None \<Rightarrow> None | Some v \<Rightarrow> if v < base then Some v else None)"












subsection \<open>Saving and loading as text\<close>


















subsection \<open>A small instance\<close>

text \<open>
  An instance of the parameters, for the theorems that are stated under a
  hypothesis to be applied to: a cycle is a list of key edges, it reports its
  edges as its cells before, during and after its interval and samples to one
  point for each edge; its temporary identities are those of its edges. A key
  face is at the time its identity names, and the face exists strictly after its
  before faces and strictly before its after faces; a cell that is not a key face
  converts to the key face of identity 0, the instance having no null pointer.
  The tessellator adds a triangle for every contour of three points or more. \<open>complex_init\<close> is a
  complex in which no cell has anything in its star.
\<close>

fun KeyEdge_id :: "KeyEdge \<Rightarrow> ident" where
  "KeyEdge_id (KeyEdgePtr i) = i"

fun demo_triangle :: "array3 list \<Rightarrow> Triangles" where
  "demo_triangle (a # b # c # rest) = [(a, b, c)]"
| "demo_triangle _ = []"

fun demo_edge :: "Cell \<Rightarrow> KeyEdge list" where
  "demo_edge (KeyEdgeCell e) = [e]"
| "demo_edge _ = []"

definition demo_collaborators :: "KeyEdge list collaborators" where
  "demo_collaborators =
     \<lparr>AnimatedCycle0 = [],
      sample = (\<lambda>c t. map (\<lambda>e. (real_of_int (sint (KeyEdge_id e)), t)) c),
      cells = (\<lambda>c. KeyEdgeCell ` set c),
      cycle_beforeCells = (\<lambda>c. KeyEdgeCell ` set c),
      cycle_afterCells = (\<lambda>c. KeyEdgeCell ` set c),
      replaceVertex = (\<lambda>oldVertex newVertex c. c),
      replaceHalfedge = (\<lambda>oldHalfedge newHalfedge c.
         map (\<lambda>e. if e = edge oldHalfedge then edge newHalfedge else e) c),
      replaceEdges = (\<lambda>oldEdge newEdges c.
         concat (map (\<lambda>e. if e = oldEdge then newEdges else [e]) c)),
      tempIds = (\<lambda>c. map KeyEdge_id c),
      withPointers = (\<lambda>c cs. concat (map demo_edge cs)),
      toKeyFace = (\<lambda>c. case c of KeyFaceCell k \<Rightarrow> k | _ \<Rightarrow> KeyFacePtr 0),
      exists = (\<lambda>f t. (\<forall>k\<in>beforeFaces f. real_of_int (sint (KeyFace_id k)) < t)
                     \<and> (\<forall>k\<in>afterFaces f. t < real_of_int (sint (KeyFace_id k)))),
      KeyEdge_time = (\<lambda>e. 0),
      tesselatePolygon = (\<lambda>p out. out @ concat (map demo_triangle p))\<rparr>"

definition demo_vac :: VAC where
  "demo_vac = \<lparr>registry = [3 \<mapsto> KeyFaceCell (KeyFacePtr 3), 12 \<mapsto> KeyFaceCell (KeyFacePtr 12),
     4 \<mapsto> KeyEdgeCell (KeyEdgePtr 4)]\<rparr>"


definition complex_init :: "'cyc complex" where
  "complex_init =
     \<lparr>face = InbetweenFace_empty,
      spatialStar = (\<lambda>c. {}), temporalStarBefore = (\<lambda>c. {}), temporalStarAfter = (\<lambda>c. {}),
      geometryChanged = 0\<rparr>"

section \<open>Properties\<close>

subsection \<open>Loops over the indices of a list\<close>

lemma foldl_index_union:
  "foldl (\<lambda>res i. res \<union> g (xs ! i)) A [0..<length xs] = A \<union> (\<Union>x\<in>set xs. g x)"
proof (induction xs arbitrary: A rule: rev_induct)
  case Nil
  show ?case by simp
next
  case (snoc x xs)
  have "foldl (\<lambda>res i. res \<union> g ((xs @ [x]) ! i)) A [0..<length xs]
        = foldl (\<lambda>res i. res \<union> g (xs ! i)) A [0..<length xs]"
    by (rule foldl_cong) (simp_all add: nth_append)
  then show ?case using snoc by auto
qed

lemma foldl_index_snoc:
  assumes "\<And>acc i. i < length xs \<Longrightarrow> step acc ((xs @ [x]) ! i) = step acc (xs ! i)"
  shows "foldl (\<lambda>acc i. step acc ((xs @ [x]) ! i)) a [0..<length (xs @ [x])]
         = step (foldl (\<lambda>acc i. step acc (xs ! i)) a [0..<length xs]) x"
proof -
  have "foldl (\<lambda>acc i. step acc ((xs @ [x]) ! i)) a [0..<length xs]
        = foldl (\<lambda>acc i. step acc (xs ! i)) a [0..<length xs]"
    by (rule foldl_cong) (simp_all add: assms)
  then show ?thesis by simp
qed

lemma foldl_index_list:
  "foldl (\<lambda>acc i. step acc (xs ! i)) a [0..<length xs] = foldl step a xs"
proof (induction xs rule: rev_induct)
  case Nil
  show ?case by simp
next
  case (snoc x xs)
  have "foldl (\<lambda>acc i. step acc ((xs @ [x]) ! i)) a [0..<length (xs @ [x])]
        = step (foldl (\<lambda>acc i. step acc (xs ! i)) a [0..<length xs]) x"
    by (rule foldl_index_snoc) (simp add: nth_append)
  then show ?case using snoc by simp
qed

subsection \<open>Sampling\<close>

lemma append_back_foldl:
  "vs \<noteq> [] \<Longrightarrow> foldl append_back vs as = butlast vs @ [last vs @ as]"
proof (induction as arbitrary: vs)
  case Nil
  then show ?case by simp
next
  case (Cons a as)
  have "append_back vs a \<noteq> []" by (simp add: append_back_def)
  from Cons.IH [OF this] show ?case by (simp add: append_back_def)
qed

lemma createPolygonData_inner_eq:
  assumes "vertices \<noteq> []"
  shows "createPolygonData_inner sampling vertices
         = butlast vertices @ [last vertices @ map (\<lambda>p. (fst p, snd p, 0)) sampling]"
proof -
  have "createPolygonData_inner sampling vertices
        = foldl (\<lambda>vs p. append_back vs (fst p, snd p, 0)) vertices sampling"
    unfolding createPolygonData_inner_def
    by (rule foldl_index_list [where step = "\<lambda>vs p. append_back vs (fst p, snd p, 0)"])
  also have "\<dots> = foldl append_back vertices (map (\<lambda>p. (fst p, snd p, 0)) sampling)"
    by (simp add: foldl_map)
  finally show ?thesis using assms by (simp add: append_back_foldl)
qed

lemma createPolygonData_eq:
  "createPolygonData C cs time
   = map (\<lambda>c. map (\<lambda>p. (fst p, snd p, 0)) (sample C c time)) cs"
proof -
  have "createPolygonData C cs time
        = foldl (\<lambda>vertices c. createPolygonData_inner (sample C c time) (vertices @ [[]])) [] cs"
    unfolding createPolygonData_def
    by (rule foldl_index_list
          [where step = "\<lambda>vertices c. createPolygonData_inner (sample C c time) (vertices @ [[]])"])
  also have "\<dots> = foldl (\<lambda>vertices c. vertices @ [map (\<lambda>p. (fst p, snd p, 0)) (sample C c time)]) [] cs"
    by (simp add: createPolygonData_inner_eq)
  also have "\<dots> = map (\<lambda>c. map (\<lambda>p. (fst p, snd p, 0)) (sample C c time)) cs"
    by (induction cs rule: rev_induct) simp_all
  finally show ?thesis .
qed

lemma getSampling_inner_eq:
  assumes "k < length res"
  shows "getSampling_inner contour res k
         = res[k := res ! k @ map (\<lambda>a. (fst a, fst (snd a))) contour]"
proof -
  have "getSampling_inner contour res k
        = foldl (\<lambda>r a. r[k := r ! k @ [(fst a, fst (snd a))]]) res contour"
    unfolding getSampling_inner_def
    by (rule foldl_index_list [where step = "\<lambda>r a. r[k := r ! k @ [(fst a, fst (snd a))]]"])
  also have "\<dots> = res[k := res ! k @ map (\<lambda>a. (fst a, fst (snd a))) contour]"
    using assms by (induction contour arbitrary: res) simp_all
  finally show ?thesis .
qed

lemma getSampling_loop_eq:
  "foldl (\<lambda>res k. getSampling_inner (data ! k) (res @ [[]]) k) [] [0..<length data]
   = map (map (\<lambda>a. (fst a, fst (snd a)))) data"
proof (induction data rule: rev_induct)
  case Nil
  show ?case by simp
next
  case (snoc d data)
  have "foldl (\<lambda>res k. getSampling_inner ((data @ [d]) ! k) (res @ [[]]) k) [] [0..<length data]
        = foldl (\<lambda>res k. getSampling_inner (data ! k) (res @ [[]]) k) [] [0..<length data]"
    by (rule foldl_cong) (simp_all add: nth_append)
  then show ?case
    using snoc by (simp add: getSampling_inner_eq list_update_append nth_append)
qed

lemma getSampling_eq: "getSampling C f time = map (\<lambda>c. sample C c time) (cycles f)"
  by (simp add: getSampling_def Let_def getSampling_loop_eq createPolygonData_eq comp_def)

text \<open>
  C9. \<^verbatim>\<open>getSampling(t)\<close> makes no existence check: at every time it returns one
  contour for each cycle, in the order of the cycles, each the polyline the cycle
  samples to at that time; there are \<^verbatim>\<open>numAnimatedCycles()\<close> of them, and the
  result is the same whatever the existence test of the face answers.
\<close>

theorem getSampling_every_time:
  "getSampling C f time = map (\<lambda>c. sample C c time) (cycles f)
   \<and> int (length (getSampling C f time)) = numAnimatedCycles f
   \<and> getSampling (C\<lparr>exists := e\<rparr>) f time = getSampling C f time"
  by (simp add: getSampling_eq numAnimatedCycles_def)

subsection \<open>Triangulation\<close>


lemma triangulate_outside: "\<not> exists C f time \<Longrightarrow> triangulate C f time out = []"
  by (simp add: triangulate_def)




subsection \<open>Temporal boundary\<close>

lemma beforeCells_eq:
  "beforeCells C f
   = KeyFaceCell ` beforeFaces f \<union> (\<Union>c\<in>set (cycles f). cycle_beforeCells C c)"
  unfolding beforeCells_def by (rule foldl_index_union)

lemma afterCells_eq:
  "afterCells C f
   = KeyFaceCell ` afterFaces f \<union> (\<Union>c\<in>set (cycles f). cycle_afterCells C c)"
  unfolding afterCells_def by (rule foldl_index_union)

lemma spatialBoundary_eq: "spatialBoundary C f = (\<Union>c\<in>set (cycles f). cells C c)"
  unfolding spatialBoundary_def by (simp add: foldl_index_union)

text \<open>
  C6. \<^verbatim>\<open>beforeCells()\<close> is the set of before faces united with the
  \<^verbatim>\<open>beforeCells()\<close> of every cycle, and \<^verbatim>\<open>afterCells()\<close> is the set of after
  faces united with the \<^verbatim>\<open>afterCells()\<close> of every cycle.
\<close>

theorem temporal_boundary_queries:
  "beforeCells C f
     = KeyFaceCell ` beforeFaces f \<union> (\<Union>c\<in>set (cycles f). cycle_beforeCells C c)
   \<and> afterCells C f
     = KeyFaceCell ` afterFaces f \<union> (\<Union>c\<in>set (cycles f). cycle_afterCells C c)"
  by (simp add: beforeCells_eq afterCells_eq)

subsection \<open>Cycle mutations and the notification\<close>

text \<open>
  C10. \<^verbatim>\<open>addAnimatedCycle()\<close> appends one default-constructed cycle after the
  cycles there are, so \<^verbatim>\<open>numAnimatedCycles()\<close> grows by one; the before and
  after faces, the three stars of every cell and the count of notifications are
  as before.
\<close>

theorem addAnimatedCycle_frame:
  "cycles (face (addAnimatedCycle C w)) = cycles (face w) @ [AnimatedCycle0 C]
   \<and> numAnimatedCycles (face (addAnimatedCycle C w)) = numAnimatedCycles (face w) + 1
   \<and> take (length (cycles (face w))) (cycles (face (addAnimatedCycle C w))) = cycles (face w)
   \<and> beforeFaces (face (addAnimatedCycle C w)) = beforeFaces (face w)
   \<and> afterFaces (face (addAnimatedCycle C w)) = afterFaces (face w)
   \<and> spatialStar (addAnimatedCycle C w) = spatialStar w
   \<and> temporalStarBefore (addAnimatedCycle C w) = temporalStarBefore w
   \<and> temporalStarAfter (addAnimatedCycle C w) = temporalStarAfter w
   \<and> geometryChanged (addAnimatedCycle C w) = geometryChanged w"
  by (simp add: addAnimatedCycle_def numAnimatedCycles_def)

lemma geometryChanged_star_updates [simp]:
  "geometryChanged (removeMeFromStarOfBoundary C me w) = geometryChanged w"
  "geometryChanged (addMeToStarOfBoundary C me w) = geometryChanged w"
  by (simp_all add: removeMeFromStarOfBoundary_def addMeToStarOfBoundary_def)

lemma face_star_updates [simp]:
  "face (removeMeFromStarOfBoundary C me w) = face w"
  "face (addMeToStarOfBoundary C me w) = face w"
  by (simp_all add: removeMeFromStarOfBoundary_def addMeToStarOfBoundary_def)

lemma setCycle_in_range:
  assumes "0 \<le> i" "i < numAnimatedCycles (face w)"
  shows "setCycle C me i cycle w =
           Inr (processGeometryChanged (addMeToStarOfBoundary C me
             ((removeMeFromStarOfBoundary C me w)
                \<lparr>face := (face w)\<lparr>cycles := (cycles (face w))[nat i := cycle]\<rparr>\<rparr>)))"
  using assms by (simp add: setCycle_def Let_def numAnimatedCycles_def)

lemma setCycle_out_of_range:
  "\<not> (0 \<le> i \<and> i < numAnimatedCycles (face w)) \<Longrightarrow> setCycle C me i cycle w = Inl IndexOutOfRange"
  by (auto simp: setCycle_def Let_def numAnimatedCycles_def)

text \<open>
  C5, as the code has it. \<^verbatim>\<open>setCycle\<close> with a valid index, \<^verbatim>\<open>removeCycle\<close> and
  \<^verbatim>\<open>addAnimatedCycle(cycle)\<close> each return and send exactly one geometry-changed
  notification.
\<close>

theorem cycle_mutation_notifies:
  "(0 \<le> i \<and> i < numAnimatedCycles (face w) \<longrightarrow>
      (\<exists>w'. setCycle C me i cycle w = Inr w' \<and> geometryChanged w' = Suc (geometryChanged w)))
   \<and> geometryChanged (removeCycle C me i w) = Suc (geometryChanged w)
   \<and> (\<exists>w'. addAnimatedCycle_cycle C me cycle w = Inr w'
          \<and> geometryChanged w' = Suc (geometryChanged w))"
proof (intro conjI impI)
  assume "0 \<le> i \<and> i < numAnimatedCycles (face w)"
  then show "\<exists>w'. setCycle C me i cycle w = Inr w' \<and> geometryChanged w' = Suc (geometryChanged w)"
    by (simp add: setCycle_in_range processGeometryChanged_def)
next
  show "geometryChanged (removeCycle C me i w) = Suc (geometryChanged w)"
    by (simp add: removeCycle_def Let_def processGeometryChanged_def)
next
  let ?w1 = "addAnimatedCycle C w"
  have "0 \<le> numAnimatedCycles (face ?w1) - 1"
    and "numAnimatedCycles (face ?w1) - 1 < numAnimatedCycles (face ?w1)"
    by (simp_all add: addAnimatedCycle_def numAnimatedCycles_def)
  then show "\<exists>w'. addAnimatedCycle_cycle C me cycle w = Inr w'
                \<and> geometryChanged w' = Suc (geometryChanged w)"
    by (simp add: addAnimatedCycle_cycle_def Let_def setCycle_in_range
          processGeometryChanged_def addAnimatedCycle_def)
qed

theorem cycle_mutation_notifies_witness:
  "(0::int) \<le> 0 \<and> 0 < numAnimatedCycles (face (addAnimatedCycle demo_collaborators complex_init))
   \<and> (\<exists>w'. setCycle demo_collaborators (InbetweenFaceCell 1) 0 [KeyEdgePtr 4]
              (addAnimatedCycle demo_collaborators complex_init) = Inr w'
          \<and> geometryChanged w' = 1)"
proof -
  have h: "(0::int) \<le> 0
           \<and> 0 < numAnimatedCycles (face (addAnimatedCycle demo_collaborators complex_init))"
    by (simp add: addAnimatedCycle_def numAnimatedCycles_def)
  have g: "geometryChanged (addAnimatedCycle demo_collaborators complex_init
             :: KeyEdge list complex) = 0"
    by (simp add: addAnimatedCycle_def complex_init_def)
  show ?thesis
    using h g
      cycle_mutation_notifies [of 0 "addAnimatedCycle demo_collaborators complex_init"
        demo_collaborators "InbetweenFaceCell 1" "[KeyEdgePtr 4]"]
    by simp
qed

text \<open>
  C5, as the claim states it, fails for \<^verbatim>\<open>addAnimatedCycle()\<close>: the call changes
  the collection of cycles and sends no notification.
\<close>

theorem addAnimatedCycle_sends_no_notification:
  "cycles (face (addAnimatedCycle demo_collaborators complex_init))
     \<noteq> cycles (face (complex_init :: KeyEdge list complex))
   \<and> \<not> geometryChanged (addAnimatedCycle demo_collaborators complex_init)
         > geometryChanged (complex_init :: KeyEdge list complex)"
  by (simp add: addAnimatedCycle_def complex_init_def InbetweenFace_empty_def)

subsection \<open>Boundary updates\<close>

lemma foldl_index_update_take:
  "n \<le> length cs \<Longrightarrow>
   foldl (\<lambda>cs i. cs[i := g (cs ! i)]) cs [0..<n] = map g (take n cs) @ drop n cs"
proof (induction n)
  case 0
  show ?case by simp
next
  case (Suc n)
  then have n: "n < length cs" by simp
  have "foldl (\<lambda>cs i. cs[i := g (cs ! i)]) cs [0..<Suc n]
        = (map g (take n cs) @ drop n cs)[n := g ((map g (take n cs) @ drop n cs) ! n)]"
    using Suc by simp
  also have "\<dots> = map g (take n cs) @ (drop n cs)[0 := g (cs ! n)]"
    using n by (simp add: list_update_append nth_append)
  also have "drop n cs = cs ! n # drop (Suc n) cs"
    using n by (simp add: Cons_nth_drop_Suc)
  also have "map g (take n cs) @ (cs ! n # drop (Suc n) cs)[0 := g (cs ! n)]
             = map g (take (Suc n) cs) @ drop (Suc n) cs"
    using n by (simp add: take_Suc_conv_app_nth)
  finally show ?case .
qed

lemma foldl_index_update:
  "foldl (\<lambda>cs i. cs[i := g (cs ! i)]) cs [0..<length cs] = map g cs"
  using foldl_index_update_take [of "length cs" cs g] by simp

text \<open>
  C4. Each overload of \<^verbatim>\<open>updateBoundary_impl\<close> applies the matching rewrite of
  AnimatedCycle to every cycle and changes nothing else; the overload for a list of
  edges leaves the face as it is when the face does not exist at the time of the
  old edge.
\<close>

theorem updateBoundary_forwards:
  "updateBoundary_impl_vertex C oldVertex newVertex f
     = f\<lparr>cycles := map (replaceVertex C oldVertex newVertex) (cycles f)\<rparr>
   \<and> updateBoundary_impl_halfedge C oldHalfedge newHalfedge f
     = f\<lparr>cycles := map (replaceHalfedge C oldHalfedge newHalfedge) (cycles f)\<rparr>
   \<and> updateBoundary_impl_edges C oldEdge newEdges f
     = (if exists C f (KeyEdge_time C oldEdge)
        then f\<lparr>cycles := map (replaceEdges C oldEdge newEdges) (cycles f)\<rparr>
        else f)"
  by (simp add: updateBoundary_impl_vertex_def updateBoundary_impl_halfedge_def
        updateBoundary_impl_edges_def foldl_index_update)

subsection \<open>Star consistency\<close>

text \<open>
  The boundary queries of the source return the referenced cells, so consistency
  can be read with them.
\<close>

lemma referenced_queries:
  "spatialBoundary C f = referenced_spatially C f"
  "beforeCells C f = referenced_before C f"
  "afterCells C f = referenced_after C f"
  by (simp_all add: spatialBoundary_eq beforeCells_eq afterCells_eq
      referenced_spatially_def referenced_before_def referenced_after_def)

lemma star_consistent_queries:
  "star_consistent C me w \<longleftrightarrow>
     (\<forall>c. (me \<in> spatialStar w c \<longleftrightarrow> c \<in> spatialBoundary C (face w)) \<and>
          (me \<in> temporalStarAfter w c \<longleftrightarrow> c \<in> beforeCells C (face w)) \<and>
          (me \<in> temporalStarBefore w c \<longleftrightarrow> c \<in> afterCells C (face w)))"
  by (simp add: star_consistent_def referenced_queries)

lemma removeMeFromStarOfBoundary_free:
  "star_consistent C me w \<Longrightarrow> star_free me (removeMeFromStarOfBoundary C me w)"
  by (simp add: star_consistent_queries star_free_def removeMeFromStarOfBoundary_def)

lemma star_free_face_update: "star_free me w \<Longrightarrow> star_free me (w\<lparr>face := f\<rparr>)"
  by (simp add: star_free_def)

lemma addMeToStarOfBoundary_consistent:
  "star_free me w \<Longrightarrow> star_consistent C me (addMeToStarOfBoundary C me w)"
  by (simp add: star_consistent_queries star_free_def addMeToStarOfBoundary_def)

lemma processGeometryChanged_consistent:
  "star_consistent C me w \<Longrightarrow> star_consistent C me (processGeometryChanged w)"
  by (simp add: star_consistent_queries processGeometryChanged_def)

lemma InbetweenFace_new_consistent:
  "star_free me w \<Longrightarrow> star_consistent C me (InbetweenFace_new C me cs before after w)"
  unfolding InbetweenFace_new_def
  by (intro addMeToStarOfBoundary_consistent star_free_face_update)

lemma setCycle_consistent:
  "star_consistent C me w \<Longrightarrow> setCycle C me i cycle w = Inr w' \<Longrightarrow> star_consistent C me w'"
  by (auto simp: setCycle_def Let_def split: if_splits
      intro!: processGeometryChanged_consistent addMeToStarOfBoundary_consistent
              star_free_face_update removeMeFromStarOfBoundary_free)

lemma removeCycle_consistent:
  "star_consistent C me w \<Longrightarrow> star_consistent C me (removeCycle C me i w)"
  by (auto simp: removeCycle_def Let_def
      intro!: processGeometryChanged_consistent addMeToStarOfBoundary_consistent
              star_free_face_update removeMeFromStarOfBoundary_free)

lemma setBeforeFaces_consistent:
  "star_consistent C me w \<Longrightarrow> star_consistent C me (setBeforeFaces C me s w)"
  by (auto simp: setBeforeFaces_def Let_def
      intro!: addMeToStarOfBoundary_consistent
              star_free_face_update removeMeFromStarOfBoundary_free)

lemma setAfterFaces_consistent:
  "star_consistent C me w \<Longrightarrow> star_consistent C me (setAfterFaces C me s w)"
  by (auto simp: setAfterFaces_def Let_def
      intro!: addMeToStarOfBoundary_consistent
              star_free_face_update removeMeFromStarOfBoundary_free)

text \<open>
  The incremental operations are the full updates: in a consistent complex, adding
  or removing one key face gives the very state that setting the changed set gives.
\<close>

lemma addBeforeFace_as_set:
  "star_consistent C me w \<Longrightarrow>
   addBeforeFace me k w = setBeforeFaces C me (insert k (beforeFaces (face w))) w"
  apply (simp add: addBeforeFace_def setBeforeFaces_def Let_def addMeToTemporalStarAfterOf_def
      addMeToStarOfBoundary_def removeMeFromStarOfBoundary_def)
  apply (rule complex.equality)
       apply (auto simp: star_consistent_queries fun_eq_iff beforeCells_eq afterCells_eq
      spatialBoundary_eq)
  done

lemma addAfterFace_as_set:
  "star_consistent C me w \<Longrightarrow>
   addAfterFace me k w = setAfterFaces C me (insert k (afterFaces (face w))) w"
  apply (simp add: addAfterFace_def setAfterFaces_def Let_def addMeToTemporalStarBeforeOf_def
      addMeToStarOfBoundary_def removeMeFromStarOfBoundary_def)
  apply (rule complex.equality)
       apply (auto simp: star_consistent_queries fun_eq_iff beforeCells_eq afterCells_eq
      spatialBoundary_eq)
  done

lemma removeBeforeFace_as_set:
  "cycles_report_no_KeyFace C \<Longrightarrow> star_consistent C me w \<Longrightarrow>
   removeBeforeFace me k w = setBeforeFaces C me (beforeFaces (face w) - {k}) w"
  apply (simp add: removeBeforeFace_def setBeforeFaces_def Let_def
      removeMeFromTemporalStarAfterOf_def addMeToStarOfBoundary_def
      removeMeFromStarOfBoundary_def)
  apply (rule complex.equality)
       apply (auto simp: star_consistent_queries fun_eq_iff beforeCells_eq afterCells_eq
      spatialBoundary_eq cycles_report_no_KeyFace_def)
  done

lemma removeAfterFace_as_set:
  "cycles_report_no_KeyFace C \<Longrightarrow> star_consistent C me w \<Longrightarrow>
   removeAfterFace me k w = setAfterFaces C me (afterFaces (face w) - {k}) w"
  apply (simp add: removeAfterFace_def setAfterFaces_def Let_def
      removeMeFromTemporalStarBeforeOf_def addMeToStarOfBoundary_def
      removeMeFromStarOfBoundary_def)
  apply (rule complex.equality)
       apply (auto simp: star_consistent_queries fun_eq_iff beforeCells_eq afterCells_eq
      spatialBoundary_eq cycles_report_no_KeyFace_def)
  done

lemma mutate_consistent:
  assumes "cycles_report_no_KeyFace C" "star_consistent C me w" "mutate C me m w = Inr w'"
  shows "star_consistent C me w'"
proof (cases m)
  case (SetCycle i cycle)
  then show ?thesis using assms by (auto intro: setCycle_consistent)
next
  case (RemoveCycle i)
  then show ?thesis using assms by (auto intro: removeCycle_consistent)
next
  case (SetBeforeFaces s)
  then show ?thesis using assms by (auto intro: setBeforeFaces_consistent)
next
  case (SetAfterFaces s)
  then show ?thesis using assms by (auto intro: setAfterFaces_consistent)
next
  case (AddBeforeFace k)
  then show ?thesis
    using assms by (auto simp: addBeforeFace_as_set intro: setBeforeFaces_consistent)
next
  case (AddAfterFace k)
  then show ?thesis
    using assms by (auto simp: addAfterFace_as_set intro: setAfterFaces_consistent)
next
  case (RemoveBeforeFace k)
  then show ?thesis
    using assms by (auto simp: removeBeforeFace_as_set intro: setBeforeFaces_consistent)
next
  case (RemoveAfterFace k)
  then show ?thesis
    using assms by (auto simp: removeAfterFace_as_set intro: setAfterFaces_consistent)
qed

lemma mutations_consistent:
  "cycles_report_no_KeyFace C \<Longrightarrow> star_consistent C me w \<Longrightarrow> mutations C me ms w = Inr w'
   \<Longrightarrow> star_consistent C me w'"
proof (induction ms arbitrary: w)
  case Nil
  then show ?case by simp
next
  case (Cons m ms)
  then show ?case
    by (auto split: sum.splits dest: mutate_consistent)
qed

lemma star_consistent_star:
  "star_consistent C me w \<Longrightarrow> me \<in> star w c \<longleftrightarrow> c \<in> referenced C (face w)"
  by (auto simp: star_consistent_def star_def referenced_def)

lemma mutate_fails:
  "mutate C me m w = Inl e \<Longrightarrow>
   \<exists>i cycle. m = SetCycle i cycle \<and> \<not> (0 \<le> i \<and> i < numAnimatedCycles (face w))"
  by (cases m) (auto simp: setCycle_def Let_def numAnimatedCycles_def split: if_splits)

text \<open>
  What the mutations do to the members of the face and to the stars of the other
  cells. \<^verbatim>\<open>QList::removeAt\<close> keeps the items at every other index.
\<close>

lemma removeAt_Cons:
  "i \<noteq> 0 \<Longrightarrow> removeAt i (x # xs) = x # removeAt (i - 1) xs"
proof (cases "0 < i")
  case True
  assume "i \<noteq> 0"
  from True obtain n where n: "i = int (Suc n)"
    by (metis nat_0_less_mult_iff gr0_implies_Suc zero_less_nat_eq int_nat_eq less_imp_le mult.right_neutral)
  have m: "i - 1 = int n" using n by simp
  show ?thesis unfolding n removeAt_def
    by (simp del: of_nat_Suc add: m [unfolded n])
next
  case False
  assume "i \<noteq> 0"
  with False have "i < 0" by simp
  then show ?thesis by (simp add: removeAt_def)
qed

lemma removeAt_nths: "removeAt i xs = nths xs {j. int j \<noteq> i}"
proof (induction xs arbitrary: i)
  case Nil
  then show ?case by (simp add: removeAt_def)
next
  case (Cons x xs)
  show ?case
  proof (cases "i = 0")
    case True
    have "nths xs {j. int (Suc j) \<noteq> 0} = xs" by (rule nths_all) simp
    with True show ?thesis by (simp add: removeAt_def nths_Cons)
  next
    case False
    have s: "{j. int (Suc j) \<noteq> i} = {j. int j \<noteq> i - 1}" by auto
    have "nths (x # xs) {j. int j \<noteq> i} = x # nths xs {j. int j \<noteq> i - 1}"
      using False by (simp add: nths_Cons s del: of_nat_Suc)
    moreover have "removeAt i (x # xs) = x # removeAt (i - 1) xs"
      using False by (rule removeAt_Cons)
    ultimately show ?thesis by (simp only: Cons.IH)
  qed
qed

lemma setCycle_effect:
  "setCycle C me i cycle w = Inr w' \<Longrightarrow> face w' = (face w)\<lparr>cycles := (cycles (face w))[nat i := cycle]\<rparr>"
  by (simp add: setCycle_def Let_def addMeToStarOfBoundary_def removeMeFromStarOfBoundary_def
      processGeometryChanged_def split: if_splits) auto

lemma removeCycle_effect:
  "face (removeCycle C me i w) = (face w)\<lparr>cycles := removeAt i (cycles (face w))\<rparr>"
  by (simp add: removeCycle_def Let_def addMeToStarOfBoundary_def removeMeFromStarOfBoundary_def
      processGeometryChanged_def)

lemma setFaces_effect:
  "face (setBeforeFaces C me s w) = (face w)\<lparr>beforeFaces := s\<rparr>"
  "face (setAfterFaces C me s w) = (face w)\<lparr>afterFaces := s\<rparr>"
  by (simp_all add: setBeforeFaces_def setAfterFaces_def Let_def addMeToStarOfBoundary_def
      removeMeFromStarOfBoundary_def)

lemma incremental_effect:
  "face (addBeforeFace me k w) = (face w)\<lparr>beforeFaces := insert k (beforeFaces (face w))\<rparr>"
  "face (addAfterFace me k w) = (face w)\<lparr>afterFaces := insert k (afterFaces (face w))\<rparr>"
  "face (removeBeforeFace me k w) = (face w)\<lparr>beforeFaces := beforeFaces (face w) - {k}\<rparr>"
  "face (removeAfterFace me k w) = (face w)\<lparr>afterFaces := afterFaces (face w) - {k}\<rparr>"
  by (simp_all add: addBeforeFace_def addAfterFace_def removeBeforeFace_def removeAfterFace_def
      addMeToTemporalStarAfterOf_def addMeToTemporalStarBeforeOf_def
      removeMeFromTemporalStarAfterOf_def removeMeFromTemporalStarBeforeOf_def)

lemma mutate_effect: "mutate C me m w = Inr w' \<Longrightarrow> face w' = effect m (face w)"
proof (cases m)
  case (SetCycle i cycle)
  assume "mutate C me m w = Inr w'"
  with SetCycle show ?thesis by (simp add: setCycle_effect)
next
  case (RemoveCycle i)
  assume "mutate C me m w = Inr w'"
  with RemoveCycle show ?thesis by (auto simp: removeCycle_effect removeAt_nths)
qed (auto simp: setFaces_effect incremental_effect)

lemma others_unchanged_refl: "others_unchanged me w w"
  by (simp add: others_unchanged_def)

lemma others_unchanged_trans:
  "others_unchanged me w w1 \<Longrightarrow> others_unchanged me w1 w2 \<Longrightarrow> others_unchanged me w w2"
  by (simp add: others_unchanged_def)

lemma others_unchanged_face: "others_unchanged me w (w\<lparr>face := f\<rparr>)"
  by (simp add: others_unchanged_def)

lemma others_unchanged_remove: "others_unchanged me w (removeMeFromStarOfBoundary C me w)"
  by (auto simp: others_unchanged_def removeMeFromStarOfBoundary_def)

lemma others_unchanged_add: "others_unchanged me w (addMeToStarOfBoundary C me w)"
  by (auto simp: others_unchanged_def addMeToStarOfBoundary_def)

lemma others_unchanged_notify: "others_unchanged me w (processGeometryChanged w)"
  by (simp add: others_unchanged_def processGeometryChanged_def)

lemma others_unchanged_full:
  "others_unchanged me w
     (addMeToStarOfBoundary C me ((removeMeFromStarOfBoundary C me w)\<lparr>face := f\<rparr>))"
  by (rule others_unchanged_trans [OF others_unchanged_remove
        others_unchanged_trans [OF others_unchanged_face others_unchanged_add]])

lemma setCycle_others: "setCycle C me i cycle w = Inr w' \<Longrightarrow> others_unchanged me w w'"
  unfolding setCycle_def Let_def
  by (simp split: if_splits)
    (metis others_unchanged_trans others_unchanged_full others_unchanged_notify)

lemma removeCycle_others: "others_unchanged me w (removeCycle C me i w)"
  unfolding removeCycle_def Let_def
  by (rule others_unchanged_trans [OF others_unchanged_full others_unchanged_notify])

lemma setFaces_others:
  "others_unchanged me w (setBeforeFaces C me s w)"
  "others_unchanged me w (setAfterFaces C me s w)"
  by (simp_all add: setBeforeFaces_def setAfterFaces_def Let_def others_unchanged_full)

lemma incremental_others:
  "others_unchanged me w (addBeforeFace me k w)"
  "others_unchanged me w (addAfterFace me k w)"
  "others_unchanged me w (removeBeforeFace me k w)"
  "others_unchanged me w (removeAfterFace me k w)"
  by (auto simp: others_unchanged_def addBeforeFace_def addAfterFace_def removeBeforeFace_def
      removeAfterFace_def addMeToTemporalStarAfterOf_def addMeToTemporalStarBeforeOf_def
      removeMeFromTemporalStarAfterOf_def removeMeFromTemporalStarBeforeOf_def)

lemma mutate_others: "mutate C me m w = Inr w' \<Longrightarrow> others_unchanged me w w'"
  by (cases m)
    (auto simp: setCycle_others removeCycle_others setFaces_others incremental_others)

lemma mutations_effect:
  "mutations C me ms w = Inr w' \<Longrightarrow> face w' = foldl (\<lambda>f m. effect m f) (face w) ms"
proof (induction ms arbitrary: w)
  case Nil
  then show ?case by simp
next
  case (Cons m ms)
  then show ?case by (auto split: sum.splits dest: mutate_effect)
qed

lemma mutations_others:
  "mutations C me ms w = Inr w' \<Longrightarrow> others_unchanged me w w'"
proof (induction ms arbitrary: w)
  case Nil
  then show ?case by (simp add: others_unchanged_refl)
next
  case (Cons m ms)
  from Cons.prems obtain w1 where 1: "mutate C me m w = Inr w1"
    and 2: "mutations C me ms w1 = Inr w'"
    by (auto split: sum.splits)
  from others_unchanged_trans [OF mutate_others [OF 1] Cons.IH [OF 2]] show ?case .
qed

text \<open>
  C1. In a complex where the face \<open>me\<close> is star consistent, and with cycles that
  report no key face before or after their interval, every sequence of the eight
  boundary mutations that runs to its end
  \<^item> leaves in the face the cycles and the before and after sets that the
    mutations ask for, one after the other (\<open>effect\<close>);
  \<^item> leaves the face star consistent: every cell referenced by these cycles and
    sets has the face in the matching star and no other cell has, so that the
    cells with the face in their star are exactly the referenced cells;
  \<^item> leaves the star of every cell as it was but for the face itself.

  The deregistration that opens a full-set operation takes the face out of every
  star; each of the four single-element operations gives the same state, the stars
  of every cell included, as the deregister, mutate, register update of the
  changed set; and the only call without a result is \<^verbatim>\<open>setCycle\<close> with an index
  that is not an index of the list.
\<close>

theorem star_consistency:
  assumes "cycles_report_no_KeyFace C" and "star_consistent C me w"
  shows "(mutations C me ms w = Inr w' \<longrightarrow>
            face w' = foldl (\<lambda>f m. effect m f) (face w) ms
            \<and> star_consistent C me w'
            \<and> (\<forall>c. me \<in> star w' c \<longleftrightarrow> c \<in> referenced C (face w'))
            \<and> others_unchanged me w w')
         \<and> star_free me (removeMeFromStarOfBoundary C me w)
         \<and> addBeforeFace me k w = setBeforeFaces C me (insert k (beforeFaces (face w))) w
         \<and> addAfterFace me k w = setAfterFaces C me (insert k (afterFaces (face w))) w
         \<and> removeBeforeFace me k w = setBeforeFaces C me (beforeFaces (face w) - {k}) w
         \<and> removeAfterFace me k w = setAfterFaces C me (afterFaces (face w) - {k}) w
         \<and> (mutate C me m w = Inl e \<longrightarrow>
              (\<exists>i cycle. m = SetCycle i cycle \<and> \<not> (0 \<le> i \<and> i < numAnimatedCycles (face w))))"
proof (intro conjI impI)
  assume run: "mutations C me ms w = Inr w'"
  from mutations_effect [OF run]
  show "face w' = foldl (\<lambda>f m. effect m f) (face w) ms" .
  from mutations_consistent [OF assms run] show c: "star_consistent C me w'" .
  show "\<forall>c. me \<in> star w' c \<longleftrightarrow> c \<in> referenced C (face w')"
    using star_consistent_star [OF c] by simp
  from mutations_others [OF run] show "others_unchanged me w w'" .
next
  show "star_free me (removeMeFromStarOfBoundary C me w)"
    by (rule removeMeFromStarOfBoundary_free [OF assms(2)])
  show "addBeforeFace me k w = setBeforeFaces C me (insert k (beforeFaces (face w))) w"
    by (rule addBeforeFace_as_set [OF assms(2)])
  show "addAfterFace me k w = setAfterFaces C me (insert k (afterFaces (face w))) w"
    by (rule addAfterFace_as_set [OF assms(2)])
  show "removeBeforeFace me k w = setBeforeFaces C me (beforeFaces (face w) - {k}) w"
    by (rule removeBeforeFace_as_set [OF assms])
  show "removeAfterFace me k w = setAfterFaces C me (afterFaces (face w) - {k}) w"
    by (rule removeAfterFace_as_set [OF assms])
next
  assume "mutate C me m w = Inl e"
  then show "\<exists>i cycle. m = SetCycle i cycle \<and> \<not> (0 \<le> i \<and> i < numAnimatedCycles (face w))"
    by (rule mutate_fails)
qed

lemma demo_no_KeyFace: "cycles_report_no_KeyFace demo_collaborators"
  by (auto simp: cycles_report_no_KeyFace_def demo_collaborators_def)

lemma complex_init_free: "star_free me complex_init"
  by (simp add: star_free_def complex_init_def)

theorem star_consistency_witness:
  "cycles_report_no_KeyFace demo_collaborators
   \<and> star_consistent demo_collaborators (InbetweenFaceCell 1)
       (InbetweenFace_new demo_collaborators (InbetweenFaceCell 1)
          [[KeyEdgePtr 1, KeyEdgePtr 2], [KeyEdgePtr 9]] {KeyFacePtr 5} {KeyFacePtr 6}
          complex_init)
   \<and> (\<exists>w'. mutations demo_collaborators (InbetweenFaceCell 1)
              [AddBeforeFace (KeyFacePtr 7), SetCycle 0 [KeyEdgePtr 3],
               RemoveBeforeFace (KeyFacePtr 5), RemoveCycle 1, SetAfterFaces {KeyFacePtr 8}]
              (InbetweenFace_new demo_collaborators (InbetweenFaceCell 1)
                 [[KeyEdgePtr 1, KeyEdgePtr 2], [KeyEdgePtr 9]] {KeyFacePtr 5} {KeyFacePtr 6}
                 complex_init)
            = Inr w'
          \<and> cycles (face w') = [[KeyEdgePtr 3]]
          \<and> beforeFaces (face w') = {KeyFacePtr 7}
          \<and> afterFaces (face w') = {KeyFacePtr 8}
          \<and> InbetweenFaceCell 1 \<in> spatialStar w' (KeyEdgeCell (KeyEdgePtr 3))
          \<and> InbetweenFaceCell 1 \<notin> spatialStar w' (KeyEdgeCell (KeyEdgePtr 1))
          \<and> InbetweenFaceCell 1 \<notin> spatialStar w' (KeyEdgeCell (KeyEdgePtr 9))
          \<and> InbetweenFaceCell 1 \<in> temporalStarAfter w' (KeyFaceCell (KeyFacePtr 7))
          \<and> InbetweenFaceCell 1 \<notin> temporalStarAfter w' (KeyFaceCell (KeyFacePtr 5))
          \<and> InbetweenFaceCell 1 \<in> temporalStarBefore w' (KeyFaceCell (KeyFacePtr 8))
          \<and> InbetweenFaceCell 1 \<notin> temporalStarBefore w' (KeyFaceCell (KeyFacePtr 6))
          \<and> spatialStar w' (KeyEdgeCell (KeyEdgePtr 1)) = {})"
proof -
  let ?C = demo_collaborators and ?me = "InbetweenFaceCell 1"
  let ?w = "InbetweenFace_new ?C ?me [[KeyEdgePtr 1, KeyEdgePtr 2], [KeyEdgePtr 9]]
              {KeyFacePtr 5} {KeyFacePtr 6} complex_init"
  let ?ms = "[AddBeforeFace (KeyFacePtr 7), SetCycle 0 [KeyEdgePtr 3],
              RemoveBeforeFace (KeyFacePtr 5), RemoveCycle 1, SetAfterFaces {KeyFacePtr 8}]"
  have h1: "cycles_report_no_KeyFace ?C" by (rule demo_no_KeyFace)
  have h2: "star_consistent ?C ?me ?w"
    by (rule InbetweenFace_new_consistent [OF complex_init_free])
  have fw: "face ?w = InbetweenFace_empty\<lparr>cycles := [[KeyEdgePtr 1, KeyEdgePtr 2], [KeyEdgePtr 9]],
              beforeFaces := {KeyFacePtr 5}, afterFaces := {KeyFacePtr 6}\<rparr>"
    by (simp add: InbetweenFace_new_def addMeToStarOfBoundary_def)
  have s0: "spatialStar ?w (KeyEdgeCell (KeyEdgePtr 1)) - {?me} = {}"
    by (simp add: InbetweenFace_new_def addMeToStarOfBoundary_def complex_init_def)
  have "\<exists>w'. mutations ?C ?me ?ms ?w = Inr w'"
    by (simp add: setCycle_def Let_def fw removeMeFromStarOfBoundary_def addBeforeFace_def
        addMeToTemporalStarAfterOf_def)
  then obtain w' where run: "mutations ?C ?me ?ms ?w = Inr w'"
    by blast
  from star_consistency [OF h1 h2, of ?ms w'] run
  have f: "face w' = foldl (\<lambda>f m. effect m f) (face ?w) ?ms"
    and c: "star_consistent ?C ?me w'"
    and o: "others_unchanged ?me ?w w'"
    by simp_all
  have cy: "cycles (face w') = [[KeyEdgePtr 3]]"
    unfolding f fw by (simp add: nths_Cons)
  have bf: "beforeFaces (face w') = {KeyFacePtr 7}"
    unfolding f fw by (simp add: insert_Diff_if)
  have af: "afterFaces (face w') = {KeyFacePtr 8}"
    unfolding f fw by simp
  have rs: "referenced_spatially ?C (face w') = {KeyEdgeCell (KeyEdgePtr 3)}"
    by (simp add: referenced_spatially_def cy demo_collaborators_def)
  have rb: "referenced_before ?C (face w')
            = {KeyEdgeCell (KeyEdgePtr 3), KeyFaceCell (KeyFacePtr 7)}"
    by (simp add: referenced_before_def cy bf demo_collaborators_def)
  have ra: "referenced_after ?C (face w')
            = {KeyEdgeCell (KeyEdgePtr 3), KeyFaceCell (KeyFacePtr 8)}"
    by (simp add: referenced_after_def cy af demo_collaborators_def)
  from c have m:
    "\<And>c. ?me \<in> spatialStar w' c \<longleftrightarrow> c \<in> {KeyEdgeCell (KeyEdgePtr 3)}"
    "\<And>c. ?me \<in> temporalStarAfter w' c
          \<longleftrightarrow> c \<in> {KeyEdgeCell (KeyEdgePtr 3), KeyFaceCell (KeyFacePtr 7)}"
    "\<And>c. ?me \<in> temporalStarBefore w' c
          \<longleftrightarrow> c \<in> {KeyEdgeCell (KeyEdgePtr 3), KeyFaceCell (KeyFacePtr 8)}"
    by (simp_all add: star_consistent_def rs rb ra)
  have e1: "?me \<notin> spatialStar w' (KeyEdgeCell (KeyEdgePtr 1))" by (simp add: m)
  from o have "spatialStar w' (KeyEdgeCell (KeyEdgePtr 1)) - {?me}
               = spatialStar ?w (KeyEdgeCell (KeyEdgePtr 1)) - {?me}"
    by (simp add: others_unchanged_def)
  with s0 e1 have empty: "spatialStar w' (KeyEdgeCell (KeyEdgePtr 1)) = {}" by blast
  have stars:
    "?me \<in> spatialStar w' (KeyEdgeCell (KeyEdgePtr 3))"
    "?me \<notin> spatialStar w' (KeyEdgeCell (KeyEdgePtr 9))"
    "?me \<in> temporalStarAfter w' (KeyFaceCell (KeyFacePtr 7))"
    "?me \<notin> temporalStarAfter w' (KeyFaceCell (KeyFacePtr 5))"
    "?me \<in> temporalStarBefore w' (KeyFaceCell (KeyFacePtr 8))"
    "?me \<notin> temporalStarBefore w' (KeyFaceCell (KeyFacePtr 6))"
    by (simp_all add: m)
  from h1 h2 run cy bf af stars e1 empty show ?thesis by blast
qed

subsection \<open>The second pass\<close>

lemma getCells_eq:
  "getCells vac ids =
     (if \<exists>i\<in>set ids. registry vac i = None then Inl UnresolvedIdentityError
      else Inr (map (resolved vac) ids))"
  by (induction ids) (auto simp: getCell_def resolved_def split: option.splits)

lemma convertTempIdsToPointers_eq:
  "convertTempIdsToPointers C vac c =
     (if \<exists>i\<in>set (tempIds C c). registry vac i = None then Inl UnresolvedIdentityError
      else Inr (withPointers C c (map (resolved vac) (tempIds C c))))"
  by (simp add: convertTempIdsToPointers_def getCells_eq)

lemma read2ndPass_cycles_eq:
  "read2ndPass_cycles C vac cs =
     (if \<exists>c\<in>set cs. \<exists>i\<in>set (tempIds C c). registry vac i = None
      then Inl UnresolvedIdentityError
      else Inr (map (\<lambda>c. withPointers C c (map (resolved vac) (tempIds C c))) cs))"
  by (induction cs) (auto simp: convertTempIdsToPointers_eq)

lemma read2ndPass_faces_eq:
  "read2ndPass_faces C vac ids faces =
     (if \<exists>i\<in>set ids. registry vac i = None then Inl UnresolvedIdentityError
      else Inr (faces \<union> (\<lambda>i. toKeyFace C (resolved vac i)) ` set ids))"
  by (induction ids arbitrary: faces)
     (auto simp: getCell_def resolved_def split: option.splits)

text \<open>
  C8. \<^verbatim>\<open>read2ndPass\<close> resolves every temporary identity of the face through the
  registry: those of its cycles, of its before list and of its after list. If one
  of them is not registered, the call ends with \<open>UnresolvedIdentityError\<close> and
  returns no face. Otherwise it returns the face whose cycles refer to the cells
  registered under their identities and whose before and after faces are what
  \<^verbatim>\<open>toKeyFace()\<close> returns for the cells registered under the identities of the
  two lists.
\<close>

theorem read2ndPass_resolves:
  "read2ndPass C vac f =
     (if \<exists>i\<in>temporary_identities C f. registry vac i = None
      then Inl UnresolvedIdentityError
      else Inr (f\<lparr>cycles :=
                    map (\<lambda>c. withPointers C c (map (resolved vac) (tempIds C c))) (cycles f),
                  beforeFaces := (\<lambda>i. toKeyFace C (resolved vac i)) ` set (tempBeforeFaces f),
                  afterFaces := (\<lambda>i. toKeyFace C (resolved vac i)) ` set (tempAfterFaces f)\<rparr>))"
  by (auto simp: read2ndPass_def read2ndPass_cycles_eq read2ndPass_faces_eq
      temporary_identities_def)

theorem read2ndPass_resolves_witness:
  "read2ndPass demo_collaborators demo_vac
       (InbetweenFace_empty\<lparr>cycles := [[KeyEdgePtr 4]], tempBeforeFaces := [3, 9]\<rparr>)
     = Inl UnresolvedIdentityError
   \<and> read2ndPass demo_collaborators demo_vac
       (InbetweenFace_empty\<lparr>cycles := [[KeyEdgePtr 7]], tempBeforeFaces := [3]\<rparr>)
     = Inl UnresolvedIdentityError
   \<and> read2ndPass demo_collaborators demo_vac
       (InbetweenFace_empty\<lparr>cycles := [[KeyEdgePtr 4]], tempBeforeFaces := [3, 12]\<rparr>)
     = Inr (InbetweenFace_empty\<lparr>cycles := [[KeyEdgePtr 4]],
             beforeFaces := {KeyFacePtr 3, KeyFacePtr 12}, tempBeforeFaces := [3, 12]\<rparr>)"
proof -
  let ?f = "InbetweenFace_empty\<lparr>cycles := [[KeyEdgePtr 4]], tempBeforeFaces := [3, 9]\<rparr>
              :: KeyEdge list InbetweenFace"
  let ?g = "InbetweenFace_empty\<lparr>cycles := [[KeyEdgePtr 7]], tempBeforeFaces := [3]\<rparr>
              :: KeyEdge list InbetweenFace"
  let ?h = "InbetweenFace_empty\<lparr>cycles := [[KeyEdgePtr 4]], tempBeforeFaces := [3, 12]\<rparr>
              :: KeyEdge list InbetweenFace"
  have 1: "read2ndPass demo_collaborators demo_vac ?f = Inl UnresolvedIdentityError"
    using read2ndPass_resolves [of demo_collaborators demo_vac ?f]
    by (simp add: temporary_identities_def demo_vac_def demo_collaborators_def
        InbetweenFace_empty_def)
  have 2: "read2ndPass demo_collaborators demo_vac ?g = Inl UnresolvedIdentityError"
    using read2ndPass_resolves [of demo_collaborators demo_vac ?g]
    by (simp add: temporary_identities_def demo_vac_def demo_collaborators_def
        InbetweenFace_empty_def)
  have 3: "read2ndPass demo_collaborators demo_vac ?h
           = Inr (InbetweenFace_empty\<lparr>cycles := [[KeyEdgePtr 4]],
                    beforeFaces := {KeyFacePtr 3, KeyFacePtr 12}, tempBeforeFaces := [3, 12]\<rparr>)"
    using read2ndPass_resolves [of demo_collaborators demo_vac ?h]
    by (simp add: temporary_identities_def demo_vac_def demo_collaborators_def
        InbetweenFace_empty_def resolved_def)
  from 1 2 3 show ?thesis by blast
qed

subsection \<open>Numbers written and read back\<close>


lemma isSpace_not_digit: "isSpace c \<Longrightarrow> digitValue b c = None"
  by (auto simp: isSpace_def digitValue_def Let_def)

lemma digit_not_space: "digitValue b c = Some d \<Longrightarrow> \<not> isSpace c"
  using isSpace_not_digit by fastforce






















subsection \<open>Lists of identities written and read back\<close>


















subsection \<open>The round trip of a face\<close>










end
